theory Spec2Isabelle
  imports Main
begin

section \<open>Values, documents and the store\<close>

text \<open>
  The service of \<^verbatim>\<open>app.py\<close> keeps two MongoDB collections: \<^verbatim>\<open>coupons\<close>, keyed by
  \<^verbatim>\<open>_id\<close>, and \<^verbatim>\<open>config\<close>, holding the single document \<^verbatim>\<open>coupon_limit\<close>. A
  \<^verbatim>\<open>datetime\<close> is an integer number of microseconds (the resolution of Python's
  \<^verbatim>\<open>datetime\<close>), so \<^verbatim>\<open>timedelta(days=1)\<close> is \<open>one_day\<close>. The store is taken to be
  connected. It keeps a datetime as whole milliseconds, so what is read back is the
  value written with the microseconds below the millisecond cut off (\<open>bson_datetime\<close>),
  and it keeps an integer in at most eight bytes.
\<close>

type_synonym datetime = int

type_synonym bytes = string

definition one_day :: int where
  "one_day = 86400000000"

definition bson_datetime :: "datetime \<Rightarrow> datetime" where
  "bson_datetime t = t div 1000 * 1000"

text \<open>
  A value decoded from a JSON request body. The limit written by \<^verbatim>\<open>reset_limit\<close> is
  whatever value the body carries, so the configuration document stores one of these.
  \<open>JObj\<close> lists the members of an object in the order of the body; a name that occurs
  twice has the value of its last occurrence, as in the dictionary Python decodes.
  JSON numbers with a fraction are left out.
\<close>

datatype json =
    JNull
  | JBool bool
  | JInt int
  | JStr string
  | JArr "json list"
  | JObj "(string \<times> json) list"

text \<open>The exceptions the handlers can meet; each handler turns them into a 500 response.\<close>

datatype exn =
    TypeError
  | AttributeError
  | DuplicateKeyError
  | OverflowError
  | InvalidDocument
  | NoJsonBody
  | LibraryError string

record coupon =
  coupon_id :: string
  valid :: bool
  expiry_date :: datetime
  discount :: string
  used :: bool
  generating_ip :: string
  generated_by_master :: bool
  created_at :: datetime

record config =
  limit :: json
  current_count :: int

record store =
  coupons_collection :: "coupon list"
  config_collection :: "config option"

subsection \<open>The store operations the program uses\<close>

text \<open>\<^verbatim>\<open>coupons_collection.find_one({'_id': k})\<close>: the first document with that key.\<close>

definition find_by_id :: "coupon list \<Rightarrow> string \<Rightarrow> coupon option" where
  "find_by_id cs k = find (\<lambda>c. coupon_id c = k) cs"

text \<open>\<^verbatim>\<open>coupons_collection.find_one({'generating_ip': ip})\<close>.\<close>

definition find_by_ip :: "coupon list \<Rightarrow> string \<Rightarrow> coupon option" where
  "find_by_ip cs ip = find (\<lambda>c. generating_ip c = ip) cs"

text \<open>
  \<^verbatim>\<open>insert_one\<close>: the key \<^verbatim>\<open>_id\<close> is unique, a second document with it is refused. The
  document is stored with its two datetimes cut to the millisecond.
\<close>

definition insert_one :: "coupon list \<Rightarrow> coupon \<Rightarrow> exn + coupon list" where
  "insert_one cs c =
     (if coupon_id c \<in> set (map coupon_id cs) then Inl DuplicateKeyError
      else Inr (cs @ [c\<lparr>expiry_date := bson_datetime (expiry_date c),
                        created_at := bson_datetime (created_at c)\<rparr>]))"

text \<open>
  Encoding a value for the store: an integer outside the signed 64-bit range raises
  \<^verbatim>\<open>OverflowError\<close>, a member name with a NUL character raises \<^verbatim>\<open>InvalidDocument\<close>;
  the first fault met on the way through the value is the one raised. The bound on the
  size of a document is left out.
\<close>

fun bson_error :: "json \<Rightarrow> exn option"
  and bson_errors :: "json list \<Rightarrow> exn option"
  and bson_members :: "(string \<times> json) list \<Rightarrow> exn option" where
  "bson_error JNull = None"
| "bson_error (JBool b) = None"
| "bson_error (JInt n) =
     (if - 9223372036854775808 \<le> n \<and> n \<le> 9223372036854775807 then None
      else Some OverflowError)"
| "bson_error (JStr s) = None"
| "bson_error (JArr vs) = bson_errors vs"
| "bson_error (JObj kvs) = bson_members kvs"
| "bson_errors [] = None"
| "bson_errors (v # vs) =
     (case bson_error v of Some e \<Rightarrow> Some e | None \<Rightarrow> bson_errors vs)"
| "bson_members [] = None"
| "bson_members ((k, v) # kvs) =
     (if CHR 0x00 \<in> set k then Some InvalidDocument
      else (case bson_error v of Some e \<Rightarrow> Some e | None \<Rightarrow> bson_members kvs))"

text \<open>\<^verbatim>\<open>update_one({'_id': k}, {'$set': {'used': True}})\<close>: the first match is updated.\<close>

fun set_used :: "coupon list \<Rightarrow> string \<Rightarrow> coupon list" where
  "set_used [] k = []"
| "set_used (c # cs) k =
     (if coupon_id c = k then c\<lparr>used := True\<rparr> # cs else c # set_used cs k)"

text \<open>
  Python's \<^verbatim>\<open>n < v\<close> and \<^verbatim>\<open>v - n\<close> for an integer \<^verbatim>\<open>n\<close>: a \<^verbatim>\<open>bool\<close> counts as 0 or 1,
  any other non-number raises \<^verbatim>\<open>TypeError\<close>.
\<close>

fun py_lt :: "int \<Rightarrow> json \<Rightarrow> exn + bool" where
  "py_lt n (JInt m) = Inr (n < m)"
| "py_lt n (JBool b) = Inr (n < (if b then 1 else 0))"
| "py_lt n v = Inl TypeError"

fun py_sub :: "json \<Rightarrow> int \<Rightarrow> exn + int" where
  "py_sub (JInt m) n = Inr (m - n)"
| "py_sub (JBool b) n = Inr ((if b then 1 else 0) - n)"
| "py_sub v n = Inl TypeError"

text \<open>
  \<^verbatim>\<open>request.json.get(k, d)\<close>: only a JSON object has \<^verbatim>\<open>get\<close>, and the last member
  of that name is the one found.
\<close>

fun json_get :: "json option \<Rightarrow> string \<Rightarrow> json \<Rightarrow> exn + json" where
  "json_get None k d = Inl NoJsonBody"
| "json_get (Some (JObj kvs)) k d = Inr (case map_of (rev kvs) k of None \<Rightarrow> d | Some v \<Rightarrow> v)"
| "json_get (Some v) k d = Inl AttributeError"

text \<open>The truth value of \<^verbatim>\<open>request.cookies.get(name)\<close>: a missing or empty cookie is false.\<close>

fun truthy :: "string option \<Rightarrow> bool" where
  "truthy None = False"
| "truthy (Some v) = (v \<noteq> [])"

section \<open>Responses\<close>

datatype body =
    DbStatus json int
  | StatusError exn
  | NotAllowed string
  | SendFile bytes string bool string
  | Validation bool string "string option"
  | Unauthorized
  | LimitReset json
  | Stats nat nat nat nat nat json int

record response =
  status :: nat
  body :: body
  set_cookie :: "(string \<times> string \<times> nat) option"

definition jsonify :: "nat \<Rightarrow> body \<Rightarrow> response" where
  "jsonify code b = \<lparr>status = code, body = b, set_cookie = None\<rparr>"

definition server_error :: "exn \<Rightarrow> response" where
  "server_error e = jsonify 500 (StatusError e)"

section \<open>Start-up\<close>

text \<open>\<^verbatim>\<open>init_mongodb\<close> creates the configuration document when there is none.\<close>

definition init_mongodb :: "store \<Rightarrow> store" where
  "init_mongodb db =
     (case config_collection db of
        None \<Rightarrow> db\<lparr>config_collection := Some \<lparr>limit = JInt 150, current_count = 0\<rparr>\<rparr>
      | Some c \<Rightarrow> db)"

definition empty_store :: store where
  "empty_store = \<lparr>coupons_collection = [], config_collection = None\<rparr>"

section \<open>Eligibility checks\<close>

definition is_ip_allowed :: "string \<Rightarrow> string \<Rightarrow> store \<Rightarrow> bool \<times> store" where
  "is_ip_allowed MASTER_IP ip db =
     (ip = MASTER_IP \<or> find_by_ip (coupons_collection db) ip = None, db)"

definition can_generate_coupon :: "store \<Rightarrow> (exn + bool) \<times> store" where
  "can_generate_coupon db =
     (case config_collection db of
        None \<Rightarrow> (Inl TypeError, db)
      | Some cfg \<Rightarrow> (py_lt (current_count cfg) (limit cfg), db))"

definition increment_coupon_count :: "store \<Rightarrow> store" where
  "increment_coupon_count db =
     db\<lparr>config_collection :=
          map_option (\<lambda>cfg. cfg\<lparr>current_count := current_count cfg + 1\<rparr>) (config_collection db)\<rparr>"

section \<open>Rendering\<close>

text \<open>
  \<^verbatim>\<open>generate_qr_code\<close> and \<^verbatim>\<open>create_coupon_pdf\<close> only call the \<^verbatim>\<open>qrcode\<close> and
  \<^verbatim>\<open>reportlab\<close> libraries; what these produce, or whether they raise, is a parameter.
\<close>

record libs =
  qrcode_image :: "string \<Rightarrow> exn + bytes"
  reportlab_pdf :: "string \<Rightarrow> bytes \<Rightarrow> datetime \<Rightarrow> exn + bytes"

definition generate_qr_code :: "libs \<Rightarrow> string \<Rightarrow> exn + bytes" where
  "generate_qr_code L data = qrcode_image L data"

definition create_coupon_pdf :: "libs \<Rightarrow> string \<Rightarrow> bytes \<Rightarrow> datetime \<Rightarrow> exn + bytes" where
  "create_coupon_pdf L cid qr_img_buffer expiry = reportlab_pdf L cid qr_img_buffer expiry"

section \<open>Handlers\<close>

text \<open>
  What a request to \<^verbatim>\<open>/generate_coupon\<close> brings: the value of the cookie
  \<^verbatim>\<open>coupon_generated\<close> if it was sent, the caller's address, the eight characters drawn
  by \<^verbatim>\<open>str(uuid.uuid4())[:8]\<close>, and the two readings of \<^verbatim>\<open>datetime.now()\<close>.
\<close>

record gen_request =
  cookie :: "string option"
  remote_addr :: string
  uuid8 :: string
  now_expiry :: datetime
  now_created :: datetime

record reset_request =
  reset_addr :: string
  reset_json :: "json option"

definition already_generated :: string where
  "already_generated =
     ''You have already generated a coupon. Only one coupon per device is allowed.''"

definition limit_reached :: string where
  "limit_reached = ''Coupon limit reached. Please try again later.''"

definition test_db :: "store \<Rightarrow> response \<times> store" where
  "test_db db =
     (case config_collection db of
        None \<Rightarrow> (jsonify 200 (StatusError TypeError), db)
      | Some cfg \<Rightarrow> (jsonify 200 (DbStatus (limit cfg) (current_count cfg)), db))"

definition generate_coupon :: "string \<Rightarrow> libs \<Rightarrow> gen_request \<Rightarrow> store \<Rightarrow> response \<times> store" where
  "generate_coupon MASTER_IP L rq db =
     (if truthy (cookie rq) then (jsonify 403 (NotAllowed already_generated), db)
      else
        (let client_ip = remote_addr rq in
         (case fst (can_generate_coupon db) of
            Inl e \<Rightarrow> (server_error e, db)
          | Inr ok \<Rightarrow>
              (if \<not> ok \<and> client_ip \<noteq> MASTER_IP
               then (jsonify 403 (NotAllowed limit_reached), db)
               else
                 (let cid = uuid8 rq;
                      expiry = now_expiry rq + one_day;
                      coupon_data =
                        \<lparr>coupon_id = cid, valid = True, expiry_date = expiry,
                         discount = ''10%'', used = False, generating_ip = client_ip,
                         generated_by_master = (client_ip = MASTER_IP),
                         created_at = now_created rq\<rparr>
                  in
                  (case insert_one (coupons_collection db) coupon_data of
                     Inl e \<Rightarrow> (server_error e, db)
                   | Inr cs \<Rightarrow>
                       (let db1 = db\<lparr>coupons_collection := cs\<rparr>;
                            db2 = (if client_ip \<noteq> MASTER_IP then increment_coupon_count db1
                                   else db1)
                        in
                        (case generate_qr_code L cid of
                           Inl e \<Rightarrow> (server_error e, db2)
                         | Inr qr_buffer \<Rightarrow>
                             (case create_coupon_pdf L cid qr_buffer expiry of
                                Inl e \<Rightarrow> (server_error e, db2)
                              | Inr pdf_buffer \<Rightarrow>
                                  (\<lparr>status = 200,
                                    body = SendFile pdf_buffer ''application/pdf'' True
                                             (''swaad_station_coupon_'' @ cid @ ''.pdf''),
                                    set_cookie =
                                      Some (''coupon_generated'', ''true'', 24 * 60 * 60)\<rparr>,
                                   db2))))))))))"

definition validate_coupon :: "string \<Rightarrow> datetime \<Rightarrow> store \<Rightarrow> response \<times> store" where
  "validate_coupon cid now db =
     (case find_by_id (coupons_collection db) cid of
        None \<Rightarrow> (jsonify 200 (Validation False ''Coupon not found'' None), db)
      | Some c \<Rightarrow>
          if used c then (jsonify 200 (Validation False ''Coupon already used'' None), db)
          else if now > expiry_date c
          then (jsonify 200 (Validation False ''Coupon expired'' None), db)
          else
            (jsonify 200
               (Validation True ''Valid coupon - 10% discount applied at Swaad Station''
                  (Some (discount c))),
             db\<lparr>coupons_collection := set_used (coupons_collection db) cid\<rparr>))"

text \<open>
  The body \<open>LimitReset v\<close> stands for
  \<^verbatim>\<open>{'message': f'Coupon limit reset to {v}', 'new_limit': v}\<close>. The update is
  encoded before it is sent, so a limit that cannot be encoded raises and nothing is
  written.
\<close>

definition reset_limit :: "string \<Rightarrow> reset_request \<Rightarrow> store \<Rightarrow> response \<times> store" where
  "reset_limit MASTER_IP rq db =
     (if reset_addr rq \<noteq> MASTER_IP then (jsonify 403 Unauthorized, db)
      else
        case json_get (reset_json rq) ''limit'' (JInt 150) of
          Inl e \<Rightarrow> (server_error e, db)
        | Inr new_limit \<Rightarrow>
            (case bson_error new_limit of
               Some e \<Rightarrow> (server_error e, db)
             | None \<Rightarrow>
                 (jsonify 200 (LimitReset new_limit),
                  db\<lparr>config_collection :=
                       map_option (\<lambda>cfg. cfg\<lparr>limit := new_limit, current_count := 0\<rparr>)
                         (config_collection db)\<rparr>)))"

definition admin_stats :: "string \<Rightarrow> string \<Rightarrow> store \<Rightarrow> response \<times> store" where
  "admin_stats MASTER_IP addr db =
     (if addr \<noteq> MASTER_IP then (jsonify 403 Unauthorized, db)
      else
        (case config_collection db of
           None \<Rightarrow> (server_error TypeError, db)
         | Some cfg \<Rightarrow>
             (let cs = coupons_collection db;
                  total_coupons = length cs;
                  master_generated = length (filter generated_by_master cs);
                  used_coupons = length (filter used cs);
                  unique_users = length (remdups (map generating_ip cs))
              in
              (case py_sub (limit cfg) (current_count cfg) of
                 Inl e \<Rightarrow> (server_error e, db)
               | Inr remaining \<Rightarrow>
                   (jsonify 200
                      (Stats total_coupons master_generated
                         (total_coupons - master_generated)
                         used_coupons unique_users (limit cfg) remaining),
                    db)))))"

section \<open>Requests served one after the other\<close>

datatype request =
    TestDb
  | GenerateCoupon gen_request
  | ValidateCoupon string datetime
  | ResetLimit reset_request
  | AdminStats string

fun handle :: "string \<Rightarrow> libs \<Rightarrow> request \<Rightarrow> store \<Rightarrow> response \<times> store" where
  "handle MASTER_IP L TestDb db = test_db db"
| "handle MASTER_IP L (GenerateCoupon rq) db = generate_coupon MASTER_IP L rq db"
| "handle MASTER_IP L (ValidateCoupon cid now) db = validate_coupon cid now db"
| "handle MASTER_IP L (ResetLimit rq) db = reset_limit MASTER_IP rq db"
| "handle MASTER_IP L (AdminStats addr) db = admin_stats MASTER_IP addr db"

fun serve :: "string \<Rightarrow> libs \<Rightarrow> request list \<Rightarrow> store \<Rightarrow> store" where
  "serve MASTER_IP L [] db = db"
| "serve MASTER_IP L (r # rs) db = serve MASTER_IP L rs (snd (handle MASTER_IP L r db))"

definition coupon_used :: "store \<Rightarrow> string \<Rightarrow> bool" where
  "coupon_used db k =
     (case find_by_id (coupons_collection db) k of None \<Rightarrow> False | Some c \<Rightarrow> used c)"

text \<open>How often the used flag of coupon \<open>k\<close> goes from false to true while \<open>rs\<close> is served.\<close>

fun used_flips :: "string \<Rightarrow> libs \<Rightarrow> string \<Rightarrow> request list \<Rightarrow> store \<Rightarrow> nat" where
  "used_flips MASTER_IP L k [] db = 0"
| "used_flips MASTER_IP L k (r # rs) db =
     (let db' = snd (handle MASTER_IP L r db)
      in (if \<not> coupon_used db k \<and> coupon_used db' k then 1 else 0)
         + used_flips MASTER_IP L k rs db')"

text \<open>
  \<open>kept cs cs'\<close>: every document of \<open>cs\<close> is still in \<open>cs'\<close>, at its place, and
  differs from what it was at most in that its used flag has been set.
\<close>

definition kept :: "coupon list \<Rightarrow> coupon list \<Rightarrow> bool" where
  "kept cs cs' \<longleftrightarrow>
     length cs \<le> length cs'
     \<and> list_all2 (\<lambda>c c'. c' = c \<or> c' = c\<lparr>used := True\<rparr>) cs (take (length cs) cs')"

section \<open>Concrete requests and stores\<close>

text \<open>The address that \<^verbatim>\<open>MASTER_IP\<close> defaults to, and libraries that render without fault.\<close>

definition default_master :: string where
  "default_master = ''192.168.137.1''"

definition ok_libs :: libs where
  "ok_libs = \<lparr>qrcode_image = (\<lambda>d. Inr (''PNG:'' @ d)),
              reportlab_pdf = (\<lambda>cid qr expiry. Inr (''PDF:'' @ cid))\<rparr>"

definition visitor_request :: gen_request where
  "visitor_request =
     \<lparr>cookie = None, remote_addr = ''10.0.0.7'', uuid8 = ''1a2b3c4d'',
      now_expiry = 1700000000123456, now_created = 1700000000123789\<rparr>"

definition second_request :: gen_request where
  "second_request =
     \<lparr>cookie = None, remote_addr = ''10.0.0.7'', uuid8 = ''5e6f7a8b'',
      now_expiry = 1700000060000250, now_created = 1700000060000900\<rparr>"

definition master_request :: gen_request where
  "master_request =
     \<lparr>cookie = None, remote_addr = default_master, uuid8 = ''0c0ffee0'',
      now_expiry = 1700000120000000, now_created = 1700000120000040\<rparr>"

text \<open>The store after \<open>visitor_request\<close> has been served on a fresh one.\<close>

definition one_coupon_store :: store where
  "one_coupon_store =
     \<lparr>coupons_collection =
        [\<lparr>coupon_id = ''1a2b3c4d'', valid = True, expiry_date = 1700086400123000,
          discount = ''10%'', used = False, generating_ip = ''10.0.0.7'',
          generated_by_master = False, created_at = 1700000000123000\<rparr>],
      config_collection = Some \<lparr>limit = JInt 150, current_count = 1\<rparr>\<rparr>"

text \<open>A store whose quota of two is used up, with one unused and one used coupon.\<close>

definition full_store :: store where
  "full_store =
     \<lparr>coupons_collection =
        [\<lparr>coupon_id = ''1a2b3c4d'', valid = True, expiry_date = 1700086400123000,
          discount = ''10%'', used = False, generating_ip = ''10.0.0.7'',
          generated_by_master = False, created_at = 1700000000123000\<rparr>,
         \<lparr>coupon_id = ''deadbeef'', valid = True, expiry_date = 1700086400456000,
          discount = ''10%'', used = True, generating_ip = ''10.0.0.8'',
          generated_by_master = False, created_at = 1700000000456000\<rparr>],
      config_collection = Some \<lparr>limit = JInt 2, current_count = 2\<rparr>\<rparr>"

lemmas eval_defs =
  generate_coupon_def validate_coupon_def can_generate_coupon_def
  increment_coupon_count_def insert_one_def find_by_id_def find_by_ip_def is_ip_allowed_def
  jsonify_def server_error_def init_mongodb_def empty_store_def generate_qr_code_def
  create_coupon_pdf_def ok_libs_def default_master_def visitor_request_def Let_def
  one_day_def bson_datetime_def

section \<open>Facts about the store operations\<close>

lemma find_by_id_None: "find_by_id cs k = None \<longleftrightarrow> k \<notin> coupon_id ` set cs"
  by (auto simp: find_by_id_def find_None_iff)

lemma find_by_ip_None: "find_by_ip cs ip = None \<longleftrightarrow> (\<forall>c\<in>set cs. generating_ip c \<noteq> ip)"
  by (auto simp: find_by_ip_def find_None_iff)

lemma find_by_id_mem: "find_by_id cs k = Some c \<Longrightarrow> c \<in> set cs \<and> coupon_id c = k"
  by (auto simp: find_by_id_def find_Some_iff)

lemma find_by_id_set_used:
  "find_by_id (set_used cs k) k' =
     (if k' = k then map_option (\<lambda>c. c\<lparr>used := True\<rparr>) (find_by_id cs k)
      else find_by_id cs k')"
  by (induction cs) (auto simp: find_by_id_def)

lemma find_by_id_append:
  "find_by_id (cs @ [c]) k =
     (case find_by_id cs k of Some x \<Rightarrow> Some x
      | None \<Rightarrow> if coupon_id c = k then Some c else None)"
  by (induction cs) (auto simp: find_by_id_def)

lemma set_used_length [simp]: "length (set_used cs k) = length cs"
  by (induction cs) auto

lemma set_used_all2:
  "list_all2 (\<lambda>c c'. c' = c \<or> (coupon_id c = k \<and> c' = c\<lparr>used := True\<rparr>)) cs (set_used cs k)"
  by (induction cs) (auto simp: list_all2_refl)

lemma set_used_discount:
  "c' \<in> set (set_used cs k) \<Longrightarrow> \<exists>c\<in>set cs. discount c = discount c'"
  by (induction cs) (auto split: if_splits)

lemma increment_coupons [simp]:
  "coupons_collection (increment_coupon_count db) = coupons_collection db"
  by (simp add: increment_coupon_count_def)

lemma reset_limit_coupons:
  "coupons_collection (snd (reset_limit MASTER_IP rq db)) = coupons_collection db"
  by (simp add: reset_limit_def split: sum.splits option.splits)

lemma one_coupon_store_eq:
  "snd (generate_coupon default_master ok_libs visitor_request (init_mongodb empty_store))
     = one_coupon_store"
  by (simp add: eval_defs one_coupon_store_def)

section \<open>The eligibility checks\<close>

text \<open>
  Claim C8, as the code has it. \<^verbatim>\<open>reset_limit\<close> stores the limit it is given without
  looking at its type. After a reset to the string \<^verbatim>\<open>"abc"\<close> the comparison in
  \<^verbatim>\<open>can_generate_coupon\<close> raises \<^verbatim>\<open>TypeError\<close>: the function returns neither true nor
  false.
\<close>

theorem string_limit_counterexample:
  "fst (can_generate_coupon
         (snd (reset_limit default_master
                 \<lparr>reset_addr = default_master,
                  reset_json = Some (JObj [(''limit'', JStr ''abc'')])\<rparr>
                 (init_mongodb empty_store)))) = Inl TypeError"
  by (simp add: reset_limit_def can_generate_coupon_def init_mongodb_def empty_store_def)

text \<open>
  Claim C8, amended. For every configuration document whose limit is an integer \<open>n\<close>,
  \<^verbatim>\<open>can_generate_coupon\<close> returns false exactly when \<open>current_count \<ge> n\<close> and true
  exactly when \<open>current_count < n\<close>; a boolean limit counts as 0 or 1. In every case
  the store is left as it was.
\<close>

theorem can_generate_coupon_iff:
  assumes "config_collection db = Some cfg"
  shows "(limit cfg = JInt n \<longrightarrow>
            (fst (can_generate_coupon db) = Inr False \<longleftrightarrow> n \<le> current_count cfg)
          \<and> (fst (can_generate_coupon db) = Inr True \<longleftrightarrow> current_count cfg < n))
       \<and> (limit cfg = JBool b \<longrightarrow>
            fst (can_generate_coupon db) = Inr (current_count cfg < (if b then 1 else 0)))
       \<and> snd (can_generate_coupon db) = db"
  using assms by (auto simp: can_generate_coupon_def)

theorem can_generate_coupon_iff_witness:
  "fst (can_generate_coupon (init_mongodb empty_store)) = Inr True
 \<and> fst (can_generate_coupon full_store) = Inr False
 \<and> snd (can_generate_coupon full_store) = full_store
 \<and> fst (can_generate_coupon
          (full_store\<lparr>config_collection := Some \<lparr>limit = JBool True, current_count = 0\<rparr>\<rparr>))
     = Inr True"
  using can_generate_coupon_iff
      [of "init_mongodb empty_store" "\<lparr>limit = JInt 150, current_count = 0\<rparr>" 150]
    can_generate_coupon_iff [of full_store "\<lparr>limit = JInt 2, current_count = 2\<rparr>" 2]
    can_generate_coupon_iff
      [of "full_store\<lparr>config_collection := Some \<lparr>limit = JBool True, current_count = 0\<rparr>\<rparr>"
        "\<lparr>limit = JBool True, current_count = 0\<rparr>" _ True]
  by (simp add: init_mongodb_def empty_store_def full_store_def)

section \<open>Resetting the limit\<close>

lemma json_get_last:
  assumes "kvs = before @ [(k, v)] @ after" and "k \<notin> fst ` set after"
  shows "json_get (Some (JObj kvs)) k d = Inr v"
proof -
  from assms(2) have "map_of (rev after) k = None"
    by (simp add: map_of_eq_None_iff)
  with assms(1) show ?thesis
    by (simp add: map_add_def)
qed

lemma json_get_absent:
  "map_of kvs k = None \<Longrightarrow> json_get (Some (JObj kvs)) k d = Inr d"
proof -
  assume "map_of kvs k = None"
  then have "map_of (rev kvs) k = None"
    by (simp add: map_of_eq_None_iff)
  then show ?thesis by simp
qed

text \<open>
  Claim C7, as the code has it. The store keeps an integer in at most eight bytes. A
  reset request from the privileged address with the limit \<open>2 ^ 63\<close> raises
  \<^verbatim>\<open>OverflowError\<close> when the update is encoded: the answer is 500 and the
  configuration document keeps its limit and its count.
\<close>

theorem big_limit_counterexample:
  "reset_limit default_master
     \<lparr>reset_addr = default_master,
      reset_json = Some (JObj [(''limit'', JInt 9223372036854775808)])\<rparr>
     full_store =
     (\<lparr>status = 500, body = StatusError OverflowError, set_cookie = None\<rparr>, full_store)"
  by (simp add: reset_limit_def server_error_def jsonify_def)

text \<open>
  Claim C7, amended. A reset request from an address other than the privileged one is
  answered with 403 and \<^verbatim>\<open>{'error': 'Unauthorized'}\<close>, and the store is unchanged. A
  reset request from the privileged address whose body is an object with the member
  \<^verbatim>\<open>limit\<close>, the last one of that name being an integer of the signed 64-bit range
  (from \<open>- 2 ^ 63\<close> to \<open>2 ^ 63 - 1\<close>), sets the limit of the configuration document to
  that integer and the count to zero, and the response reports the new limit.
\<close>

theorem reset_limit_spec:
  "(reset_addr rq \<noteq> MASTER_IP \<longrightarrow>
      reset_limit MASTER_IP rq db = (jsonify 403 Unauthorized, db))
 \<and> (reset_addr rq = MASTER_IP
      \<and> reset_json rq = Some (JObj (before @ [(''limit'', JInt n)] @ after))
      \<and> ''limit'' \<notin> fst ` set after
      \<and> - 9223372036854775808 \<le> n \<and> n \<le> 9223372036854775807
      \<and> config_collection db = Some cfg \<longrightarrow>
      reset_limit MASTER_IP rq db =
        (\<lparr>status = 200, body = LimitReset (JInt n), set_cookie = None\<rparr>,
         db\<lparr>config_collection := Some \<lparr>limit = JInt n, current_count = 0\<rparr>\<rparr>))"
proof (intro conjI impI)
  assume "reset_addr rq \<noteq> MASTER_IP"
  then show "reset_limit MASTER_IP rq db = (jsonify 403 Unauthorized, db)"
    by (simp add: reset_limit_def)
next
  assume h: "reset_addr rq = MASTER_IP
      \<and> reset_json rq = Some (JObj (before @ [(''limit'', JInt n)] @ after))
      \<and> ''limit'' \<notin> fst ` set after
      \<and> - 9223372036854775808 \<le> n \<and> n \<le> 9223372036854775807
      \<and> config_collection db = Some cfg"
  then have "json_get (reset_json rq) ''limit'' (JInt 150) = Inr (JInt n)"
    using json_get_last [of "before @ [(''limit'', JInt n)] @ after" before "''limit''"
        "JInt n" after "JInt 150"]
    by simp
  with h show "reset_limit MASTER_IP rq db =
        (\<lparr>status = 200, body = LimitReset (JInt n), set_cookie = None\<rparr>,
         db\<lparr>config_collection := Some \<lparr>limit = JInt n, current_count = 0\<rparr>\<rparr>)"
    by (simp add: reset_limit_def jsonify_def)
qed

theorem reset_limit_spec_witness:
  "reset_limit default_master
     \<lparr>reset_addr = ''10.0.0.7'', reset_json = Some (JObj [(''limit'', JInt 500)])\<rparr>
     full_store =
     (jsonify 403 Unauthorized, full_store)
 \<and> reset_limit default_master
     \<lparr>reset_addr = default_master,
      reset_json = Some (JObj [(''limit'', JInt 7), (''limit'', JInt 500), (''x'', JNull)])\<rparr>
     full_store =
     (\<lparr>status = 200, body = LimitReset (JInt 500), set_cookie = None\<rparr>,
      full_store\<lparr>config_collection := Some \<lparr>limit = JInt 500, current_count = 0\<rparr>\<rparr>)"
  using reset_limit_spec
      [of "\<lparr>reset_addr = ''10.0.0.7'', reset_json = Some (JObj [(''limit'', JInt 500)])\<rparr>"
        default_master full_store "[]" 500 "[]" "\<lparr>limit = JInt 2, current_count = 2\<rparr>"]
    reset_limit_spec
      [of "\<lparr>reset_addr = default_master,
            reset_json = Some (JObj [(''limit'', JInt 7), (''limit'', JInt 500), (''x'', JNull)])\<rparr>"
        default_master full_store "[(''limit'', JInt 7)]" 500 "[(''x'', JNull)]"
        "\<lparr>limit = JInt 2, current_count = 2\<rparr>"]
  by (simp add: full_store_def default_master_def)

text \<open>
  Claim C10. When the body of a reset request from the privileged address is a JSON
  object without the key \<^verbatim>\<open>limit\<close>, the limit is set to 150 and the count to zero.
\<close>

theorem reset_limit_default:
  assumes "reset_addr rq = MASTER_IP" and "reset_json rq = Some (JObj kvs)"
    and "map_of kvs ''limit'' = None" and "config_collection db = Some cfg"
  shows "reset_limit MASTER_IP rq db =
           (jsonify 200 (LimitReset (JInt 150)),
            db\<lparr>config_collection := Some (cfg\<lparr>limit := JInt 150, current_count := 0\<rparr>)\<rparr>)"
  using assms json_get_absent [of kvs "''limit''" "JInt 150"]
  by (simp add: reset_limit_def)

theorem reset_limit_default_witness:
  "reset_limit default_master \<lparr>reset_addr = default_master, reset_json = Some (JObj [])\<rparr>
     full_store =
     (jsonify 200 (LimitReset (JInt 150)),
      full_store\<lparr>config_collection := Some \<lparr>limit = JInt 150, current_count = 0\<rparr>\<rparr>)"
  using reset_limit_default
      [of "\<lparr>reset_addr = default_master, reset_json = Some (JObj [])\<rparr>"
        default_master "[]" full_store "\<lparr>limit = JInt 2, current_count = 2\<rparr>"]
  by (simp add: full_store_def)

section \<open>Validation\<close>

text \<open>
  Claim C6. A validation request is answered, in this order: with
  \<^verbatim>\<open>Coupon not found\<close> when no document has the identifier; with
  \<^verbatim>\<open>Coupon already used\<close> when the document is used, expired or not; with
  \<^verbatim>\<open>Coupon expired\<close> when the time is past the expiry date; and otherwise with
  \<^verbatim>\<open>valid: True\<close> and the stored discount, the document's used flag being set. The
  status is 200 in every case.
\<close>

theorem validate_coupon_order:
  "(cid \<notin> coupon_id ` set (coupons_collection db) \<longrightarrow>
      validate_coupon cid now db =
        (jsonify 200 (Validation False ''Coupon not found'' None), db))
 \<and> (find_by_id (coupons_collection db) cid = Some c \<and> used c \<longrightarrow>
      validate_coupon cid now db =
        (jsonify 200 (Validation False ''Coupon already used'' None), db))
 \<and> (find_by_id (coupons_collection db) cid = Some c \<and> \<not> used c \<and> now > expiry_date c \<longrightarrow>
      validate_coupon cid now db =
        (jsonify 200 (Validation False ''Coupon expired'' None), db))
 \<and> (find_by_id (coupons_collection db) cid = Some c \<and> \<not> used c \<and> now \<le> expiry_date c \<longrightarrow>
      fst (validate_coupon cid now db) =
        jsonify 200 (Validation True ''Valid coupon - 10% discount applied at Swaad Station''
                       (Some (discount c)))
      \<and> find_by_id (coupons_collection (snd (validate_coupon cid now db))) cid
          = Some (c\<lparr>used := True\<rparr>))
 \<and> status (fst (validate_coupon cid now db)) = 200"
  by (auto simp: validate_coupon_def find_by_id_None[symmetric] find_by_id_set_used jsonify_def
           split: option.splits)

theorem validate_coupon_order_witness:
  "validate_coupon ''zzz'' 1700000000500000 full_store =
     (jsonify 200 (Validation False ''Coupon not found'' None), full_store)
 \<and> validate_coupon ''deadbeef'' 1800000000000000 full_store =
     (jsonify 200 (Validation False ''Coupon already used'' None), full_store)
 \<and> validate_coupon ''1a2b3c4d'' 1700086400123001 full_store =
     (jsonify 200 (Validation False ''Coupon expired'' None), full_store)
 \<and> fst (validate_coupon ''1a2b3c4d'' 1700086400123000 full_store) =
     jsonify 200 (Validation True ''Valid coupon - 10% discount applied at Swaad Station''
                    (Some ''10%''))"
  using validate_coupon_order [of "''zzz''" full_store 1700000000500000]
    validate_coupon_order
      [of "''deadbeef''" full_store 1800000000000000 "coupons_collection full_store ! 1"]
    validate_coupon_order
      [of "''1a2b3c4d''" full_store 1700086400123001 "coupons_collection full_store ! 0"]
    validate_coupon_order
      [of "''1a2b3c4d''" full_store 1700086400123000 "coupons_collection full_store ! 0"]
  by (simp add: full_store_def find_by_id_def)

section \<open>Issuance\<close>

lemma generate_coupon_master_config:
  "remote_addr rq = MASTER_IP \<Longrightarrow>
   config_collection (snd (generate_coupon MASTER_IP L rq db)) = config_collection db"
  by (auto simp: generate_coupon_def Let_def split: sum.splits)

text \<open>
  Claim C3, as the code has it. The handler tests the truth value of the cookie, and an
  empty string is false in Python: a request that carries the cookie
  \<^verbatim>\<open>coupon_generated\<close> with an empty value is served like one without it.
\<close>

theorem cookie_present_counterexample:
  "cookie (visitor_request\<lparr>cookie := Some []\<rparr>) \<noteq> None
 \<and> status (fst (generate_coupon default_master ok_libs (visitor_request\<lparr>cookie := Some []\<rparr>)
              (init_mongodb empty_store))) = 200
 \<and> map coupon_id (coupons_collection
       (snd (generate_coupon default_master ok_libs (visitor_request\<lparr>cookie := Some []\<rparr>)
              (init_mongodb empty_store)))) = [''1a2b3c4d'']
 \<and> map_option current_count (config_collection
       (snd (generate_coupon default_master ok_libs (visitor_request\<lparr>cookie := Some []\<rparr>)
              (init_mongodb empty_store)))) = Some 1"
  by (simp add: eval_defs)

text \<open>
  Claim C3, amended. Every issuance request whose cookie \<^verbatim>\<open>coupon_generated\<close> has a
  non-empty value is answered with 403 and the message that a coupon was already
  generated, whatever the caller's address (the privileged one too) and whatever the
  store holds; the store is unchanged, so no coupon is added and no count incremented.
\<close>

theorem generate_coupon_cookie:
  assumes "cookie rq = Some v" and "v \<noteq> []"
  shows "generate_coupon MASTER_IP L rq db = (jsonify 403 (NotAllowed already_generated), db)"
  using assms by (simp add: generate_coupon_def)

theorem generate_coupon_cookie_witness:
  "generate_coupon default_master ok_libs (master_request\<lparr>cookie := Some ''true''\<rparr>) full_store =
     (jsonify 403 (NotAllowed already_generated), full_store)
 \<and> generate_coupon default_master ok_libs (visitor_request\<lparr>cookie := Some ''true''\<rparr>)
       (init_mongodb empty_store) =
     (jsonify 403 (NotAllowed already_generated), init_mongodb empty_store)"
  using generate_coupon_cookie [of "master_request\<lparr>cookie := Some ''true''\<rparr>" "''true''"
      default_master ok_libs full_store]
    generate_coupon_cookie [of "visitor_request\<lparr>cookie := Some ''true''\<rparr>" "''true''"
      default_master ok_libs "init_mongodb empty_store"]
  by (simp add: master_request_def visitor_request_def)

text \<open>
  Claim C4, as the code has it. The cookie is tested before the caller's address is
  read: a request from the privileged address that carries the marker cookie is refused
  with 403 and no coupon is stored.
\<close>

theorem master_cookie_counterexample:
  "remote_addr (master_request\<lparr>cookie := Some ''true''\<rparr>) = default_master
 \<and> status (fst (generate_coupon default_master ok_libs (master_request\<lparr>cookie := Some ''true''\<rparr>)
              (init_mongodb empty_store))) = 403
 \<and> coupons_collection (snd (generate_coupon default_master ok_libs
       (master_request\<lparr>cookie := Some ''true''\<rparr>) (init_mongodb empty_store))) = []"
  by (simp add: eval_defs master_request_def)

text \<open>
  Claim C4, amended. Every issuance request from the privileged address leaves the
  configuration document, hence \<^verbatim>\<open>current_count\<close>, unchanged. When it carries no marker
  cookie (or an empty one), the configuration document has an integer limit, the drawn
  identifier is not in the store and rendering does not fail, it succeeds, whether or
  not \<^verbatim>\<open>current_count\<close> has reached the limit: the response is the document with status
  200 and the new coupon is stored, its datetimes cut to the millisecond.
\<close>

theorem generate_coupon_master:
  assumes "remote_addr rq = MASTER_IP"
  shows "config_collection (snd (generate_coupon MASTER_IP L rq db)) = config_collection db
       \<and> (\<not> truthy (cookie rq) \<and> config_collection db = Some cfg \<and> limit cfg = JInt n
            \<and> uuid8 rq \<notin> coupon_id ` set (coupons_collection db)
            \<and> generate_qr_code L (uuid8 rq) = Inr qr
            \<and> create_coupon_pdf L (uuid8 rq) qr (now_expiry rq + one_day) = Inr pdf \<longrightarrow>
          generate_coupon MASTER_IP L rq db =
            (\<lparr>status = 200,
              body = SendFile pdf ''application/pdf'' True
                       (''swaad_station_coupon_'' @ uuid8 rq @ ''.pdf''),
              set_cookie = Some (''coupon_generated'', ''true'', 86400)\<rparr>,
             db\<lparr>coupons_collection := coupons_collection db @
                  [\<lparr>coupon_id = uuid8 rq, valid = True,
                    expiry_date = bson_datetime (now_expiry rq + one_day),
                    discount = ''10%'', used = False,
                    generating_ip = MASTER_IP, generated_by_master = True,
                    created_at = bson_datetime (now_created rq)\<rparr>]\<rparr>))"
proof (intro conjI impI)
  show "config_collection (snd (generate_coupon MASTER_IP L rq db)) = config_collection db"
    using assms by (rule generate_coupon_master_config)
next
  assume "\<not> truthy (cookie rq) \<and> config_collection db = Some cfg \<and> limit cfg = JInt n
            \<and> uuid8 rq \<notin> coupon_id ` set (coupons_collection db)
            \<and> generate_qr_code L (uuid8 rq) = Inr qr
            \<and> create_coupon_pdf L (uuid8 rq) qr (now_expiry rq + one_day) = Inr pdf"
  then show "generate_coupon MASTER_IP L rq db =
            (\<lparr>status = 200,
              body = SendFile pdf ''application/pdf'' True
                       (''swaad_station_coupon_'' @ uuid8 rq @ ''.pdf''),
              set_cookie = Some (''coupon_generated'', ''true'', 86400)\<rparr>,
             db\<lparr>coupons_collection := coupons_collection db @
                  [\<lparr>coupon_id = uuid8 rq, valid = True,
                    expiry_date = bson_datetime (now_expiry rq + one_day),
                    discount = ''10%'', used = False,
                    generating_ip = MASTER_IP, generated_by_master = True,
                    created_at = bson_datetime (now_created rq)\<rparr>]\<rparr>)"
    using assms
    by (simp add: generate_coupon_def Let_def can_generate_coupon_def insert_one_def)
qed

theorem generate_coupon_master_witness:
  "fst (can_generate_coupon full_store) = Inr False
 \<and> status (fst (generate_coupon default_master ok_libs master_request full_store)) = 200
 \<and> config_collection (snd (generate_coupon default_master ok_libs master_request full_store))
     = Some \<lparr>limit = JInt 2, current_count = 2\<rparr>
 \<and> map coupon_id (coupons_collection
       (snd (generate_coupon default_master ok_libs master_request full_store)))
     = [''1a2b3c4d'', ''deadbeef'', ''0c0ffee0'']"
proof -
  have a: "remote_addr master_request = default_master"
    by (simp add: master_request_def)
  have h: "\<not> truthy (cookie master_request)
        \<and> config_collection full_store = Some \<lparr>limit = JInt 2, current_count = 2\<rparr>
        \<and> limit \<lparr>limit = JInt 2, current_count = 2\<rparr> = JInt 2
        \<and> uuid8 master_request \<notin> coupon_id ` set (coupons_collection full_store)
        \<and> generate_qr_code ok_libs (uuid8 master_request) = Inr ''PNG:0c0ffee0''
        \<and> create_coupon_pdf ok_libs (uuid8 master_request) ''PNG:0c0ffee0''
             (now_expiry master_request + one_day) = Inr ''PDF:0c0ffee0''"
    by (simp add: master_request_def full_store_def generate_qr_code_def create_coupon_pdf_def
          ok_libs_def)
  have c: "fst (can_generate_coupon full_store) = Inr False"
    by (simp add: can_generate_coupon_def full_store_def)
  show ?thesis
    using generate_coupon_master [OF a, of ok_libs full_store
        "\<lparr>limit = JInt 2, current_count = 2\<rparr>" 2 "''PNG:0c0ffee0''" "''PDF:0c0ffee0''"] h c
    by (simp add: full_store_def master_request_def)
qed

text \<open>
  Claim C5, as the code has it. The store keeps datetimes as whole milliseconds. For a
  request served at a clock reading that is not a whole millisecond, the expiry of the
  stored coupon is not the clock reading plus one day but that value cut to the
  millisecond.
\<close>

theorem stored_expiry_counterexample:
  "status (fst (generate_coupon default_master ok_libs visitor_request
                  (init_mongodb empty_store))) = 200
 \<and> now_expiry visitor_request + 24 * 60 * 60 * 1000000 = 1700086400123456
 \<and> map expiry_date (coupons_collection
       (snd (generate_coupon default_master ok_libs visitor_request
               (init_mongodb empty_store)))) = [1700086400123000]"
  by (simp add: eval_defs)

text \<open>
  Claim C5, amended. When issuance succeeds (status 200), the store has one more coupon,
  with the drawn identifier, \<^verbatim>\<open>valid\<close> true, \<^verbatim>\<open>used\<close> false, discount \<^verbatim>\<open>10%\<close>, the
  caller's address, the master flag set exactly for the privileged address, and as
  expiry the clock reading plus one day (86400000000 microseconds) cut to the whole
  millisecond; the creation time is cut likewise. The count is one higher exactly when
  the caller is not privileged. The response carries the document rendered for the
  identifier and the uncut expiry as an attachment of type \<^verbatim>\<open>application/pdf\<close> and
  sets the cookie \<^verbatim>\<open>coupon_generated\<close> to \<^verbatim>\<open>true\<close> for 86400 seconds.
\<close>

theorem generate_coupon_success:
  assumes "generate_coupon MASTER_IP L rq db = (r, db')" and "status r = 200"
  shows "coupons_collection db' = coupons_collection db @
           [\<lparr>coupon_id = uuid8 rq, valid = True,
             expiry_date = (now_expiry rq + 86400000000) div 1000 * 1000,
             discount = ''10%'', used = False, generating_ip = remote_addr rq,
             generated_by_master = (remote_addr rq = MASTER_IP),
             created_at = now_created rq div 1000 * 1000\<rparr>]
       \<and> (\<exists>cfg. config_collection db = Some cfg
             \<and> config_collection db' =
                 Some (cfg\<lparr>current_count :=
                        current_count cfg + (if remote_addr rq = MASTER_IP then 0 else 1)\<rparr>))
       \<and> (\<exists>qr pdf. generate_qr_code L (uuid8 rq) = Inr qr
             \<and> create_coupon_pdf L (uuid8 rq) qr (now_expiry rq + 86400000000) = Inr pdf
             \<and> body r = SendFile pdf ''application/pdf'' True
                          (''swaad_station_coupon_'' @ uuid8 rq @ ''.pdf''))
       \<and> set_cookie r = Some (''coupon_generated'', ''true'', 86400)"
  using assms
  by (auto simp: generate_coupon_def Let_def jsonify_def server_error_def insert_one_def
        can_generate_coupon_def increment_coupon_count_def one_day_def bson_datetime_def
      split: sum.splits if_splits option.splits)

theorem generate_coupon_success_witness:
  "status (fst (generate_coupon default_master ok_libs visitor_request
                  (init_mongodb empty_store))) = 200
 \<and> coupons_collection (snd (generate_coupon default_master ok_libs visitor_request
                               (init_mongodb empty_store))) =
     [\<lparr>coupon_id = ''1a2b3c4d'', valid = True, expiry_date = 1700086400123000,
       discount = ''10%'', used = False, generating_ip = ''10.0.0.7'',
       generated_by_master = False, created_at = 1700000000123000\<rparr>]
 \<and> config_collection (snd (generate_coupon default_master ok_libs visitor_request
                              (init_mongodb empty_store))) =
     Some \<lparr>limit = JInt 150, current_count = 1\<rparr>
 \<and> set_cookie (fst (generate_coupon default_master ok_libs visitor_request
                      (init_mongodb empty_store))) =
     Some (''coupon_generated'', ''true'', 86400)"
proof -
  have e: "generate_coupon default_master ok_libs visitor_request (init_mongodb empty_store) =
      (fst (generate_coupon default_master ok_libs visitor_request (init_mongodb empty_store)),
       snd (generate_coupon default_master ok_libs visitor_request (init_mongodb empty_store)))"
    by simp
  have s: "status (fst (generate_coupon default_master ok_libs visitor_request
                  (init_mongodb empty_store))) = 200"
    by (simp add: eval_defs)
  have c: "config_collection (init_mongodb empty_store) =
             Some \<lparr>limit = JInt 150, current_count = 0\<rparr>"
    by (simp add: init_mongodb_def empty_store_def)
  show ?thesis
    using generate_coupon_success [OF e s] s c
    by (simp add: visitor_request_def default_master_def init_mongodb_def empty_store_def)
qed

text \<open>
  Claim C1. A non-privileged address that already has a coupon is to be refused another:
  \<^verbatim>\<open>is_ip_allowed\<close> is written for this test, but \<^verbatim>\<open>generate_coupon\<close> never calls it.
  Served on a fresh store, \<open>visitor_request\<close> and then \<open>second_request\<close>, both without
  cookie and from the same non-privileged address, are both answered with 200:
  \<^verbatim>\<open>is_ip_allowed\<close> is false for that address before the second request, and after it
  the store holds two coupons issued to the address.
\<close>

theorem second_coupon_issued:
  "remote_addr second_request \<noteq> default_master
 \<and> cookie second_request = None
 \<and> fst (is_ip_allowed default_master (remote_addr second_request)
          (snd (generate_coupon default_master ok_libs visitor_request
                  (init_mongodb empty_store)))) = False
 \<and> status (fst (generate_coupon default_master ok_libs second_request
       (snd (generate_coupon default_master ok_libs visitor_request
               (init_mongodb empty_store))))) = 200
 \<and> map generating_ip (coupons_collection
       (snd (generate_coupon default_master ok_libs second_request
          (snd (generate_coupon default_master ok_libs visitor_request
                  (init_mongodb empty_store))))))
     = [''10.0.0.7'', ''10.0.0.7'']"
  by (simp add: eval_defs second_request_def)

section \<open>What the requests leave in the store\<close>

lemma kept_refl: "kept cs cs"
  by (simp add: kept_def list_all2_refl)

lemma kept_append: "kept cs (cs @ ds)"
  by (simp add: kept_def list_all2_refl)

lemma kept_set_used: "kept cs (set_used cs k)"
  unfolding kept_def
  by (auto intro: list_all2_mono[OF set_used_all2])

lemma kept_trans:
  assumes "kept as bs" and "kept bs cs"
  shows "kept as cs"
proof -
  let ?R = "\<lambda>c c'. c' = c \<or> c' = c\<lparr>used := True\<rparr>"
  from assms have le: "length as \<le> length bs" "length bs \<le> length cs"
    by (simp_all add: kept_def)
  from assms have 1: "list_all2 ?R as (take (length as) bs)" by (simp add: kept_def)
  from assms have "list_all2 ?R bs (take (length bs) cs)" by (simp add: kept_def)
  then have "list_all2 ?R (take (length as) bs) (take (length as) (take (length bs) cs))"
    by (rule list_all2_takeI)
  with le have 2: "list_all2 ?R (take (length as) bs) (take (length as) cs)"
    by (simp add: min_def)
  have "list_all2 ?R as (take (length as) cs)"
    using 1 2 by (rule list_all2_trans[rotated]) auto
  with le show ?thesis by (simp add: kept_def)
qed

lemma handle_kept:
  "kept (coupons_collection db) (coupons_collection (snd (handle MASTER_IP L r db)))"
proof (cases r)
  case TestDb
  then show ?thesis by (simp add: test_db_def kept_refl split: option.splits)
next
  case (GenerateCoupon rq)
  then show ?thesis
    by (auto simp: generate_coupon_def Let_def insert_one_def kept_refl kept_append
          split: sum.splits)
next
  case (ValidateCoupon cid now)
  then show ?thesis
    by (simp add: validate_coupon_def kept_refl kept_set_used split: option.splits)
next
  case (ResetLimit rq)
  then show ?thesis by (simp add: reset_limit_coupons kept_refl)
next
  case (AdminStats addr)
  then show ?thesis
    by (simp add: admin_stats_def Let_def kept_refl split: option.splits sum.splits)
qed

lemma serve_kept:
  "kept (coupons_collection db) (coupons_collection (serve MASTER_IP L rs db))"
proof (induction rs arbitrary: db)
  case Nil
  show ?case by (simp add: kept_refl)
next
  case (Cons r rs)
  show ?case using handle_kept Cons.IH by simp (rule kept_trans)
qed

text \<open>
  Claim C9. A successful validation changes, in the coupons collection, nothing but the
  used flag of the coupon validated: every document is at its place, equal to what it
  was or, for the validated identifier, to what it was with \<^verbatim>\<open>used\<close> set; the
  configuration is untouched. No request, and no sequence of requests, removes a
  document: each one stays at its place, with at most its used flag set.
\<close>

theorem validation_frame:
  "(status (fst (validate_coupon cid now db)) = 200
      \<and> body (fst (validate_coupon cid now db)) = Validation True m d \<longrightarrow>
      list_all2 (\<lambda>c c'. c' = c \<or> (coupon_id c = cid \<and> c' = c\<lparr>used := True\<rparr>))
        (coupons_collection db) (coupons_collection (snd (validate_coupon cid now db)))
      \<and> config_collection (snd (validate_coupon cid now db)) = config_collection db)
 \<and> kept (coupons_collection db) (coupons_collection (snd (handle MASTER_IP L r db)))
 \<and> kept (coupons_collection db) (coupons_collection (serve MASTER_IP L rs db))"
  by (auto simp: handle_kept serve_kept validate_coupon_def jsonify_def set_used_all2
        split: option.splits if_splits)

theorem validation_frame_witness:
  "body (fst (validate_coupon ''1a2b3c4d'' 1700000000500000 full_store)) =
     Validation True ''Valid coupon - 10% discount applied at Swaad Station'' (Some ''10%'')
 \<and> coupons_collection (snd (validate_coupon ''1a2b3c4d'' 1700000000500000 full_store)) =
     [(coupons_collection full_store ! 0)\<lparr>used := True\<rparr>, coupons_collection full_store ! 1]
 \<and> kept (coupons_collection full_store)
      (coupons_collection (serve default_master ok_libs
         [GenerateCoupon master_request, ValidateCoupon ''1a2b3c4d'' 1700000000500000] full_store))"
proof -
  have h: "status (fst (validate_coupon ''1a2b3c4d'' 1700000000500000 full_store)) = 200
      \<and> body (fst (validate_coupon ''1a2b3c4d'' 1700000000500000 full_store)) =
          Validation True ''Valid coupon - 10% discount applied at Swaad Station'' (Some ''10%'')"
    by (simp add: validate_coupon_def full_store_def find_by_id_def jsonify_def)
  have "list_all2 (\<lambda>c c'. c' = c \<or> (coupon_id c = ''1a2b3c4d'' \<and> c' = c\<lparr>used := True\<rparr>))
        (coupons_collection full_store)
        (coupons_collection (snd (validate_coupon ''1a2b3c4d'' 1700000000500000 full_store)))
     \<and> kept (coupons_collection full_store)
      (coupons_collection (serve default_master ok_libs
         [GenerateCoupon master_request, ValidateCoupon ''1a2b3c4d'' 1700000000500000] full_store))"
    using validation_frame [of "''1a2b3c4d''" 1700000000500000 full_store
        "''Valid coupon - 10% discount applied at Swaad Station''" "Some ''10%''"
        default_master ok_libs "TestDb"
        "[GenerateCoupon master_request, ValidateCoupon ''1a2b3c4d'' 1700000000500000]"] h
    by blast
  then show ?thesis using h
    by (simp add: validate_coupon_def full_store_def find_by_id_def)
qed

section \<open>Single use\<close>

lemma handle_coupon_used:
  assumes "coupon_used db k"
  shows "coupon_used (snd (handle MASTER_IP L r db)) k"
proof (cases r)
  case TestDb
  with assms show ?thesis by (simp add: test_db_def split: option.splits)
next
  case (GenerateCoupon rq)
  with assms show ?thesis
    by (auto simp: generate_coupon_def Let_def insert_one_def coupon_used_def
          find_by_id_append split: sum.splits option.splits)
next
  case (ValidateCoupon cid now)
  with assms show ?thesis
    by (auto simp: validate_coupon_def coupon_used_def find_by_id_set_used
          split: option.splits)
next
  case (ResetLimit rq)
  with assms show ?thesis
    by (simp add: reset_limit_coupons coupon_used_def)
next
  case (AdminStats addr)
  with assms show ?thesis
    by (simp add: admin_stats_def Let_def split: option.splits sum.splits)
qed

lemma serve_coupon_used:
  "coupon_used db k \<Longrightarrow> coupon_used (serve MASTER_IP L rs db) k"
  by (induction rs arbitrary: db) (auto intro: handle_coupon_used)

lemma used_flips_used:
  "coupon_used db k \<Longrightarrow> used_flips MASTER_IP L k rs db = 0"
  by (induction rs arbitrary: db) (auto simp: Let_def handle_coupon_used)

lemma used_flips_le: "used_flips MASTER_IP L k rs db \<le> 1"
  by (induction rs arbitrary: db) (auto simp: Let_def used_flips_used)

lemma handle_discount:
  assumes "\<forall>c\<in>set (coupons_collection db). discount c = ''10%''"
  shows "\<forall>c\<in>set (coupons_collection (snd (handle MASTER_IP L r db))). discount c = ''10%''"
proof (cases r)
  case TestDb
  with assms show ?thesis by (simp add: test_db_def split: option.splits)
next
  case (GenerateCoupon rq)
  with assms show ?thesis
    by (auto simp: generate_coupon_def Let_def insert_one_def split: sum.splits)
next
  case (ValidateCoupon cid now)
  with assms show ?thesis
    by (auto simp: validate_coupon_def split: option.splits dest: set_used_discount)
next
  case (ResetLimit rq)
  with assms show ?thesis by (simp add: reset_limit_coupons)
next
  case (AdminStats addr)
  with assms show ?thesis
    by (simp add: admin_stats_def Let_def split: option.splits sum.splits)
qed

lemma serve_discount:
  "\<forall>c\<in>set (coupons_collection db). discount c = ''10%'' \<Longrightarrow>
   \<forall>c\<in>set (coupons_collection (serve MASTER_IP L rs db)). discount c = ''10%''"
proof (induction rs arbitrary: db)
  case Nil
  then show ?case by simp
next
  case (Cons r rs)
  from Cons.prems
  have "\<forall>c\<in>set (coupons_collection (snd (handle MASTER_IP L r db))). discount c = ''10%''"
    by (rule handle_discount)
  then show ?case using Cons.IH by simp
qed

lemma validate_used:
  "coupon_used db k \<Longrightarrow>
   validate_coupon k t db = (jsonify 200 (Validation False ''Coupon already used'' None), db)"
  by (auto simp: validate_coupon_def coupon_used_def split: option.splits)

text \<open>
  Claim C2. While any requests are served, the used flag of a coupon goes from false to
  true at most once. In a store that the service has built from an empty one, the
  validation of an unused coupon that has not expired answers \<^verbatim>\<open>valid: True\<close> with the
  discount \<^verbatim>\<open>10%\<close>, and every later validation of that identifier, whatever requests
  are served in between, answers \<^verbatim>\<open>valid: False\<close> with \<^verbatim>\<open>Coupon already used\<close>.
\<close>

theorem used_flips_once:
  "used_flips MASTER_IP L k rs db \<le> 1
 \<and> (db = serve MASTER_IP L rs0 (init_mongodb empty_store)
      \<and> find_by_id (coupons_collection db) k = Some c \<and> \<not> used c \<and> now \<le> expiry_date c \<longrightarrow>
      fst (validate_coupon k now db) =
        jsonify 200 (Validation True ''Valid coupon - 10% discount applied at Swaad Station''
                       (Some ''10%''))
    \<and> (\<forall>rs' t. fst (validate_coupon k t
                       (serve MASTER_IP L rs' (snd (validate_coupon k now db)))) =
                  jsonify 200 (Validation False ''Coupon already used'' None)))"
proof (intro conjI impI allI)
  show "used_flips MASTER_IP L k rs db \<le> 1" by (rule used_flips_le)
next
  assume h: "db = serve MASTER_IP L rs0 (init_mongodb empty_store)
      \<and> find_by_id (coupons_collection db) k = Some c \<and> \<not> used c \<and> now \<le> expiry_date c"
  have "\<forall>c\<in>set (coupons_collection (serve MASTER_IP L rs0 (init_mongodb empty_store))).
          discount c = ''10%''"
    by (rule serve_discount) (simp add: init_mongodb_def empty_store_def)
  with h have d: "discount c = ''10%''" using find_by_id_mem by blast
  from h have "find_by_id (coupons_collection db) k = Some c" "\<not> used c" "now \<le> expiry_date c"
    by blast+
  with d show "fst (validate_coupon k now db) =
        jsonify 200 (Validation True ''Valid coupon - 10% discount applied at Swaad Station''
                       (Some ''10%''))"
    by (simp add: validate_coupon_def)
next
  fix rs' t
  assume "db = serve MASTER_IP L rs0 (init_mongodb empty_store)
      \<and> find_by_id (coupons_collection db) k = Some c \<and> \<not> used c \<and> now \<le> expiry_date c"
  then have "find_by_id (coupons_collection db) k = Some c" "\<not> used c" "now \<le> expiry_date c"
    by blast+
  then have "coupon_used (snd (validate_coupon k now db)) k"
    by (simp add: validate_coupon_def coupon_used_def find_by_id_set_used)
  then have "coupon_used (serve MASTER_IP L rs' (snd (validate_coupon k now db))) k"
    by (rule serve_coupon_used)
  then show "fst (validate_coupon k t (serve MASTER_IP L rs' (snd (validate_coupon k now db)))) =
                  jsonify 200 (Validation False ''Coupon already used'' None)"
    by (simp add: validate_used)
qed

theorem used_flips_once_witness:
  "used_flips default_master ok_libs ''1a2b3c4d''
     [ValidateCoupon ''1a2b3c4d'' 1700000001000000, ValidateCoupon ''1a2b3c4d'' 1700000002000000]
     (serve default_master ok_libs [GenerateCoupon visitor_request] (init_mongodb empty_store)) \<le> 1
 \<and> fst (validate_coupon ''1a2b3c4d'' 1700000001000000
      (serve default_master ok_libs [GenerateCoupon visitor_request] (init_mongodb empty_store))) =
     jsonify 200 (Validation True ''Valid coupon - 10% discount applied at Swaad Station''
                    (Some ''10%''))
 \<and> fst (validate_coupon ''1a2b3c4d'' 1700000003000000
      (serve default_master ok_libs [GenerateCoupon second_request]
         (snd (validate_coupon ''1a2b3c4d'' 1700000001000000
            (serve default_master ok_libs [GenerateCoupon visitor_request]
               (init_mongodb empty_store)))))) =
     jsonify 200 (Validation False ''Coupon already used'' None)"
proof -
  have s: "serve default_master ok_libs [GenerateCoupon visitor_request] (init_mongodb empty_store)
      = one_coupon_store"
    by (simp add: one_coupon_store_eq)
  have h1: "one_coupon_store =
        serve default_master ok_libs [GenerateCoupon visitor_request] (init_mongodb empty_store)"
    using s by (rule sym)
  have h2: "find_by_id (coupons_collection one_coupon_store) ''1a2b3c4d''
           = Some (coupons_collection one_coupon_store ! 0)
      \<and> \<not> used (coupons_collection one_coupon_store ! 0)
      \<and> 1700000001000000 \<le> expiry_date (coupons_collection one_coupon_store ! 0)"
    by (simp add: one_coupon_store_def find_by_id_def)
  show ?thesis
    using used_flips_once [of default_master ok_libs "''1a2b3c4d''"
        "[ValidateCoupon ''1a2b3c4d'' 1700000001000000, ValidateCoupon ''1a2b3c4d'' 1700000002000000]"
        one_coupon_store "[GenerateCoupon visitor_request]"
        "coupons_collection one_coupon_store ! 0" 1700000001000000] h1 h2
    unfolding s by blast
qed

end
